theory Spec2Isabelle
  imports Complex_Main "HOL-Library.AList"
begin

section \<open>The panel mosaic wrapper: data model\<close>

text \<open>
  The module \<^verbatim>\<open>panel_mosaic.py\<close> is a sequence of calls into pyplot, skunk and
  cairosvg. The wrapper's own control flow (loops over dictionaries, suffix tests,
  attribute and key lookups, path concatenation) is embedded as it is written. The
  libraries lie outside the module and are modelled by what the wrapper hands to them:
  \<^item> an Axes object is the sequence of calls it has received, oldest first;
  \<^item> a value a library returns (a rendered document, a decoded image) is the symbolic
    record of the call that produced it;
  \<^item> the file system is a journal of files, newest first; a file holds a decodable
    raster image, SVG text, or something else;
  \<^item> pyplot's global state is the interactive flag and the figure it holds as current.
  Errors are values. The errors of the model are the ones Python raises in the wrapper's
  own expressions (attribute lookup, key lookup, \<^verbatim>\<open>Path + str\<close>), the one
  \<^verbatim>\<open>open(path, "rb")\<close> raises for a file that does not exist, and the ones raised
  inside \<^verbatim>\<open>plt.imread\<close> (a file that does not decode) and inside
  \<^verbatim>\<open>skunk.insert\<close> (a replacement that is no readable SVG file, or a placeholder
  that the rendered figure does not carry). Creating a figure and writing a file are
  taken to succeed. Floating point arguments are only passed through, never computed
  with, and are carried as reals.
\<close>

type_synonym label = string
type_synonym path = string

text \<open>A Python \<^verbatim>\<open>dict\<close>: items in insertion order. Its keys are distinct.\<close>

type_synonym ('k, 'v) dict = "('k \<times> 'v) list"

definition is_dict :: "('k, 'v) dict \<Rightarrow> bool" where
  "is_dict d = distinct (List.map fst d)"

text \<open>\<^verbatim>\<open>d[k] = v\<close> overwrites in place or appends: \<^const>\<open>AList.update\<close>.\<close>

text \<open>
  \<^verbatim>\<open>LibraryError\<close> is an exception raised inside the named library call; the model
  does not look into the library to tell its class.
\<close>

datatype py_error =
    AttributeError string
  | KeyError label
  | TypeError
  | FileNotFoundError path
  | LibraryError string

text \<open>
  A mosaic in its list-of-rows form; a string mosaic is its grid of one-character
  labels. \<^verbatim>\<open>"."\<close> names an empty cell.
\<close>

type_synonym mosaic = "label list list"
type_synonym gridspec = "(string, real) dict"

text \<open>
  A Figure object: its identity (the figures of a world are numbered as they are
  created) and the arguments it was created with.
\<close>

datatype figure = Figure nat mosaic "real \<times> real" string gridspec

fun fig_id :: "figure \<Rightarrow> nat" where
  "fig_id (Figure n m fsz lay g) = n"

text \<open>
  \<^verbatim>\<open>skunk.pltsvg(fig)\<close> and \<^verbatim>\<open>skunk.insert(replacements)\<close> return SVG text; the
  text is carried as the call that produced it. \<^verbatim>\<open>skunk.insert\<close> is not handed a
  figure: it renders the figure pyplot holds as current; its record names that figure
  and, for each placeholder, the text that was substituted.

  A file holds a raster image that decodes (\<open>PngImage\<close>), SVG text (\<open>SvgSource\<close>, or
  \<open>SvgText\<close> when \<^verbatim>\<open>write_svg\<close> wrote it), a converted document (\<open>PdfOf\<close>), or
  bytes that are neither an image nor SVG (\<open>Bytes\<close>).
\<close>

datatype svg_doc =
    Pltsvg figure
  | SkunkInsert nat "(label \<times> file_content) list"
and file_content =
    PngImage string
  | SvgSource string
  | Bytes string
  | SvgText svg_doc
  | PdfOf svg_doc

datatype image = Imread file_content

datatype transform = TransAxes | TransData

datatype ax_call =
    Autoscale bool
  | Text real real string string string transform int bool
  | SetTicks "real list" "real list"
  | AxisOff
  | InsetAxes "real list" int "ax_call list"
  | Imshow image string "string option"
  | SkunkConnect string

type_synonym axes = "ax_call list"

text \<open>
  The world outside the instance: pyplot's interactive flag, the files, the number of
  figures created so far, the figure pyplot holds as current, and the ids which the
  rendering of that figure carries when it is not the figure of the instance at hand
  (the placeholders of the instance's own figure are the ones \<^verbatim>\<open>map\<close> has just
  connected).
\<close>

record world =
  interactive :: bool
  fs :: "(path, file_content) dict"
  created :: nat
  gcf :: nat
  gcf_ids :: "label list"

text \<open>
  The attributes \<^verbatim>\<open>__init__\<close> assigns before it sets up the axes. An attribute
  that was never assigned is \<^const>\<open>None\<close>.
\<close>

record pm_config =
  mosaic :: mosaic
  figsize :: "real \<times> real"
  layout :: string
  gridspec_kw :: "gridspec option"

text \<open>
  A value of the dictionary \<open>svg_panel_mapping\<close>. Line 137 stores the very dictionary
  that line 142 hands to \<^verbatim>\<open>skunk.insert\<close>, and skunk replaces each path in it by
  the text of the file: a value is the path as selected, the text skunk left, or, when
  \<^verbatim>\<open>skunk.insert\<close> raised, whichever of the two skunk had got to.
\<close>

datatype svg_value = AsPath path | AsText file_content | AsEither path

text \<open>
  A constructed instance. \<open>panel_mapping\<close> is Python's \<^verbatim>\<open>None\<close> until \<^verbatim>\<open>map\<close>
  runs; \<open>png_panel_mapping\<close> and \<open>svg_panel_mapping\<close> do not exist until then.
\<close>

record PanelMosaic = pm_config +
  fig :: figure
  axs :: "(label, axes) dict"
  panel_mapping :: "(label, path) dict option"
  png_panel_mapping :: "(label, path) dict option"
  svg_panel_mapping :: "(label, svg_value) dict option"
  svg :: svg_doc

datatype out_path = PyStr string | PyPath string

datatype py_value = Str svg_doc | Instance PanelMosaic

section \<open>Python and library primitives\<close>

text \<open>\<^verbatim>\<open>s.endswith(suffix)\<close>.\<close>

definition endswith :: "string \<Rightarrow> string \<Rightarrow> bool" where
  "endswith s suf = (length suf \<le> length s \<and> drop (length s - length suf) s = suf)"

text \<open>
  \<^verbatim>\<open>plt.subplot_mosaic\<close>: a new figure, which becomes the current one, with one new,
  untouched Axes for each distinct label of the mosaic, in order of first appearance.
\<close>

definition mosaic_labels :: "mosaic \<Rightarrow> label list" where
  "mosaic_labels m = rev (remdups (rev (filter (\<lambda>l. l \<noteq> ''.'') (concat m))))"

definition subplot_mosaic ::
  "mosaic \<Rightarrow> real \<times> real \<Rightarrow> string \<Rightarrow> gridspec \<Rightarrow> world
     \<Rightarrow> (figure \<times> (label, axes) dict) \<times> world" where
  "subplot_mosaic m fsz lay g w =
     (let n = Suc (created w) in
      ((Figure n m fsz lay g, List.map (\<lambda>l. (l, [])) (mosaic_labels m)),
       w\<lparr>created := n, gcf := n, gcf_ids := []\<rparr>))"

text \<open>\<^verbatim>\<open>plt.imread(f)\<close> decodes a raster image and raises on anything else.\<close>

fun imread :: "file_content \<Rightarrow> image option" where
  "imread (PngImage s) = Some (Imread (PngImage s))"
| "imread c = None"

text \<open>
  \<^verbatim>\<open>skunk.insert(replacements)\<close>. It renders the current figure, reads the file of
  every replacement, which must hold SVG text, and substitutes it for the placeholder of
  that id, which the rendering must carry. \<open>own\<close> says that the current figure is the
  one whose placeholders the caller has just connected. The result is the replacements
  with the texts in place of the paths, or nothing when skunk raised.
\<close>

fun is_svg :: "file_content \<Rightarrow> bool" where
  "is_svg (SvgSource s) = True"
| "is_svg (SvgText d) = True"
| "is_svg c = False"

fun load_svgs :: "world \<Rightarrow> (label, path) dict \<Rightarrow> (label, file_content) dict option" where
  "load_svgs w [] = Some []"
| "load_svgs w ((l, p) # rest) =
     (case map_of (fs w) p of
        None \<Rightarrow> None
      | Some c \<Rightarrow>
          if is_svg c
          then (case load_svgs w rest of None \<Rightarrow> None | Some cs \<Rightarrow> Some ((l, c) # cs))
          else None)"

definition skunk_insert ::
  "world \<Rightarrow> bool \<Rightarrow> (label, path) dict \<Rightarrow> (label, file_content) dict option" where
  "skunk_insert w own replacements =
     (if own \<or> set (List.map fst replacements) \<subseteq> set (gcf_ids w)
      then load_svgs w replacements else None)"

text \<open>\<^verbatim>\<open>str(out_path)\<close>; a \<^verbatim>\<open>Path\<close> is carried by its string form.\<close>

fun path_str :: "out_path \<Rightarrow> string" where
  "path_str (PyStr s) = s"
| "path_str (PyPath p) = p"

text \<open>\<^verbatim>\<open>out_path + ".svg"\<close>: defined for a string, a type error for a \<^verbatim>\<open>Path\<close>.\<close>

fun path_add :: "out_path \<Rightarrow> string \<Rightarrow> py_error + string" where
  "path_add (PyStr s) ext = Inr (s @ ext)"
| "path_add (PyPath p) ext = Inl TypeError"

section \<open>The module\<close>

text \<open>\<^verbatim>\<open>_label_axes\<close>, lines 9 to 27.\<close>

fun py_label_axes ::
  "(label, axes) dict \<Rightarrow> int \<Rightarrow> real \<times> real \<Rightarrow> string \<Rightarrow> string \<Rightarrow> (label, axes) dict" where
  "py_label_axes [] fontsize label_pos ha va = []"
| "py_label_axes ((label, ax) # rest) fontsize label_pos ha va =
     (label, ax @ [Autoscale False,
                   Text (fst label_pos) (snd label_pos) (label @ '''') ha va TransAxes fontsize False,
                   SetTicks [] []])
     # py_label_axes rest fontsize label_pos ha va"

text \<open>\<^verbatim>\<open>PanelMosaic._set_up_axes\<close>, lines 51 to 62.\<close>

definition set_up_axes ::
  "'a pm_config_scheme \<Rightarrow> world \<Rightarrow> (py_error + figure \<times> (label, axes) dict) \<times> world" where
  "set_up_axes self w =
     (let w1 = w\<lparr>interactive := False\<rparr> in
      case gridspec_kw self of
        None \<Rightarrow> (Inl (AttributeError ''gridspec_kw''), w1)
      | Some g \<Rightarrow>
          (case subplot_mosaic (mosaic self) (figsize self) (layout self) g w1 of
             (fa, w2) \<Rightarrow> (Inr fa, w2\<lparr>interactive := True\<rparr>)))"

text \<open>\<^verbatim>\<open>PanelMosaic.__init__\<close>, lines 31 to 49.\<close>

definition init ::
  "mosaic \<Rightarrow> real \<times> real \<Rightarrow> string \<Rightarrow> gridspec option \<Rightarrow> world \<Rightarrow> (py_error + PanelMosaic) \<times> world" where
  "init mosaic_arg figsize_arg layout_arg gridspec_kw_arg w =
     (let self = \<lparr>mosaic = mosaic_arg, figsize = figsize_arg, layout = layout_arg,
                  gridspec_kw = (if gridspec_kw_arg = None
                                 then Some [(''hspace'', 0), (''wspace'', 0)] else None)\<rparr> in
      case set_up_axes self w of
        (Inl e, w') \<Rightarrow> (Inl e, w')
      | (Inr (f, a), w') \<Rightarrow>
          (Inr \<lparr>mosaic = mosaic self, figsize = figsize self, layout = layout self,
                gridspec_kw = gridspec_kw self,
                fig = f, axs = a, panel_mapping = None,
                png_panel_mapping = None, svg_panel_mapping = None,
                svg = Pltsvg f\<rparr>, w'))"

text \<open>\<^verbatim>\<open>PanelMosaic.label_axes\<close>, lines 64 to 94.\<close>

definition label_axes ::
  "PanelMosaic \<Rightarrow> int \<Rightarrow> real \<times> real \<Rightarrow> string \<Rightarrow> string \<Rightarrow> PanelMosaic" where
  "label_axes self fontsize label_pos ha va =
     self\<lparr>axs := py_label_axes (axs self) fontsize label_pos ha va\<rparr>"

text \<open>\<^verbatim>\<open>PanelMosaic.format_axes\<close>, lines 96 to 107: the test sits inside the loop.\<close>

fun format_loop :: "(label, axes) dict \<Rightarrow> bool \<Rightarrow> (label, axes) dict" where
  "format_loop [] panel_borders = []"
| "format_loop ((label, ax) # rest) panel_borders =
     (label, if \<not> panel_borders then ax @ [AxisOff] else ax) # format_loop rest panel_borders"

definition format_axes :: "PanelMosaic \<Rightarrow> bool \<Rightarrow> PanelMosaic" where
  "format_axes self panel_borders = self\<lparr>axs := format_loop (axs self) panel_borders\<rparr>"

text \<open>
  \<^verbatim>\<open>PanelMosaic.map\<close>, lines 109 to 142. The two selection loops (lines 120 to 123
  and 133 to 136) differ in the suffix only.
\<close>

fun select_suffix ::
  "string \<Rightarrow> (label, path) dict \<Rightarrow> (label, path) dict \<Rightarrow> (label, path) dict" where
  "select_suffix suf [] acc = acc"
| "select_suffix suf ((label, p) # rest) acc =
     select_suffix suf rest (if endswith p suf then AList.update label p acc else acc)"

definition png_inset :: "image \<Rightarrow> ax_call" where
  "png_inset img =
     InsetAxes [0.01, 0.01, 0.98, 0.98] (- 1) [Imshow img ''none'' None, AxisOff]"

text \<open>
  Lines 126 to 131. The file is opened and read before the axis is looked up, so a
  missing file and a file that does not decode are reported before a missing label.
\<close>

fun draw_pngs ::
  "(label, path) dict \<Rightarrow> (label, axes) dict \<Rightarrow> world \<Rightarrow> py_error option \<times> (label, axes) dict" where
  "draw_pngs [] a w = (None, a)"
| "draw_pngs ((label, p) # rest) a w =
     (case map_of (fs w) p of
        None \<Rightarrow> (Some (FileNotFoundError p), a)
      | Some content \<Rightarrow>
          (case imread content of
             None \<Rightarrow> (Some (LibraryError ''plt.imread''), a)
           | Some img \<Rightarrow>
               (case map_of a label of
                  None \<Rightarrow> (Some (KeyError label), a)
                | Some ax \<Rightarrow>
                    draw_pngs rest (AList.update label (ax @ [png_inset img]) a) w)))"

text \<open>Lines 139 and 140.\<close>

fun connect_svgs ::
  "label list \<Rightarrow> (label, axes) dict \<Rightarrow> py_error option \<times> (label, axes) dict" where
  "connect_svgs [] a = (None, a)"
| "connect_svgs (label # rest) a =
     (case map_of a label of
        None \<Rightarrow> (Some (KeyError label), a)
      | Some ax \<Rightarrow> connect_svgs rest (AList.update label (ax @ [SkunkConnect label]) a))"

text \<open>
  Line 142. \<open>self.svg_panel_mapping\<close> is the dictionary skunk is handed, so what skunk
  does to it shows in the attribute; \<open>self.svg\<close> is assigned only when skunk returns.
\<close>

definition map_panels ::
  "PanelMosaic \<Rightarrow> (label, path) dict \<Rightarrow> world \<Rightarrow> py_error option \<times> PanelMosaic" where
  "map_panels self pmap w =
     (let self1 = self\<lparr>panel_mapping := Some pmap\<rparr>;
          png = select_suffix ''.png'' pmap [];
          self2 = self1\<lparr>png_panel_mapping := Some png\<rparr> in
      case draw_pngs png (axs self2) w of
        (Some e, a) \<Rightarrow> (Some e, self2\<lparr>axs := a\<rparr>)
      | (None, a) \<Rightarrow>
          (let self3 = self2\<lparr>axs := a\<rparr>;
               svgm = select_suffix ''.svg'' pmap [];
               self4 = self3\<lparr>svg_panel_mapping := Some (List.map (\<lambda>(l, p). (l, AsPath p)) svgm)\<rparr> in
           case connect_svgs (List.map fst svgm) (axs self4) of
             (Some e, a') \<Rightarrow> (Some e, self4\<lparr>axs := a'\<rparr>)
           | (None, a') \<Rightarrow>
               (case skunk_insert w (gcf w = fig_id (fig self4)) svgm of
                  None \<Rightarrow>
                    (Some (LibraryError ''skunk.insert''),
                     self4\<lparr>axs := a',
                           svg_panel_mapping := Some (List.map (\<lambda>(l, p). (l, AsEither p)) svgm)\<rparr>)
                | Some texts \<Rightarrow>
                    (None,
                     self4\<lparr>axs := a',
                           svg_panel_mapping := Some (List.map (\<lambda>(l, c). (l, AsText c)) texts),
                           svg := SkunkInsert (gcf w) texts\<rparr>))))"

text \<open>\<^verbatim>\<open>PanelMosaic.write_svg\<close>, lines 226 to 237.\<close>

definition write_svg :: "PanelMosaic \<Rightarrow> out_path \<Rightarrow> world \<Rightarrow> py_error option \<times> world" where
  "write_svg self out w =
     (case path_add out ''.svg'' of
        Inl e \<Rightarrow> (Some e, w)
      | Inr p \<Rightarrow> (None, w\<lparr>fs := (p, SvgText (svg self)) # fs w\<rparr>))"

text \<open>\<^verbatim>\<open>PanelMosaic.write_pdf\<close>, lines 239 to 251.\<close>

definition write_pdf :: "PanelMosaic \<Rightarrow> out_path \<Rightarrow> world \<Rightarrow> py_error option \<times> world" where
  "write_pdf self out w = (None, w\<lparr>fs := (path_str out @ ''.pdf'', PdfOf (svg self)) # fs w\<rparr>)"

text \<open>\<^verbatim>\<open>PanelMosaic.write\<close>, lines 206 to 224.\<close>

definition write_figure ::
  "PanelMosaic \<Rightarrow> out_path \<Rightarrow> string list \<Rightarrow> world \<Rightarrow> py_error option \<times> world" where
  "write_figure self out formats w =
     (case (if ''svg'' \<in> set formats then write_svg self out w else (None, w)) of
        (Some e, w1) \<Rightarrow> (Some e, w1)
      | (None, w1) \<Rightarrow> (if ''pdf'' \<in> set formats then write_pdf self out w1 else (None, w1)))"

text \<open>The free function \<^verbatim>\<open>panel_mosaic\<close>, lines 254 to 271.\<close>

definition panel_mosaic ::
  "mosaic \<Rightarrow> (label, path) dict \<Rightarrow> real \<times> real \<Rightarrow> int \<Rightarrow> bool \<Rightarrow> string \<Rightarrow> real \<times> real \<Rightarrow> world
   \<Rightarrow> (py_error + py_value) \<times> world" where
  "panel_mosaic mosaic_arg pmap figsize_arg fontsize panel_borders layout_arg label_pos w =
     (case init mosaic_arg figsize_arg layout_arg None w of
        (Inl e, w') \<Rightarrow> (Inl e, w')
      | (Inr pm, w') \<Rightarrow>
          (let pm1 = label_axes pm fontsize label_pos ''left'' ''top'';
               pm2 = format_axes pm1 panel_borders in
           case map_panels pm2 pmap w' of
             (Some e, pm3) \<Rightarrow> (Inl e, w')
           | (None, pm3) \<Rightarrow> (Inr (Instance pm3), w')))"

section \<open>Vocabulary of the properties\<close>

text \<open>The text objects among the calls an axis has received.\<close>

fun is_text :: "ax_call \<Rightarrow> bool" where
  "is_text (Text x y s ha va tr fsz clip) = True"
| "is_text c = False"




text \<open>The panels of an instance are the labels of its mosaic: its axes are keyed by them.\<close>

definition keys_are_panels :: "PanelMosaic \<Rightarrow> bool" where
  "keys_are_panels self = (List.map fst (axs self) = mosaic_labels (mosaic self))"

text \<open>
  A two-panel instance as the constructor leaves it, and the world it is left in: the
  instance's figure is the first figure created and the current one, and the files are
  the image \<^verbatim>\<open>a.png\<close> and the drawing \<^verbatim>\<open>b.svg\<close>.
\<close>

definition example_pm :: PanelMosaic where
  "example_pm =
     \<lparr>mosaic = [[''A'', ''B'']], figsize = (10, 8), layout = ''tight'',
      gridspec_kw = Some [(''hspace'', 0), (''wspace'', 0)],
      fig = Figure 1 [[''A'', ''B'']] (10, 8) ''tight'' [(''hspace'', 0), (''wspace'', 0)],
      axs = [(''A'', []), (''B'', [])],
      panel_mapping = None, png_panel_mapping = None, svg_panel_mapping = None,
      svg = Pltsvg (Figure 1 [[''A'', ''B'']] (10, 8) ''tight'' [(''hspace'', 0), (''wspace'', 0)])\<rparr>"

definition example_world :: world where
  "example_world =
     \<lparr>interactive = True,
      fs = [(''a.png'', PngImage ''image''), (''b.svg'', SvgSource ''<svg/>'')],
      created = 1, gcf = 1, gcf_ids = []\<rparr>"

section \<open>Dictionaries\<close>

lemma key_has_value: "k \<in> fst ` set a \<Longrightarrow> \<exists>v. map_of a k = Some v"
  by (metis domD dom_map_of_conv_image_fst)

lemma map_of_Some_key: "map_of a k = Some v \<Longrightarrow> k \<in> fst ` set a"
  by (metis domI dom_map_of_conv_image_fst)

lemma map_of_None_key: "l \<notin> fst ` set a \<Longrightarrow> map_of a l = None"
  by (simp add: map_of_eq_None_iff)

lemma update_present_keys:
  "map_of a k = Some v \<Longrightarrow> List.map fst (AList.update k v' a) = List.map fst a"
  by (simp add: update_keys map_of_Some_key)








lemma fresh_label: "\<exists>l::label. l \<notin> fst ` set a"
proof -
  have "finite (fst ` set a)" by simp
  moreover have "infinite (UNIV :: label set)" by (rule infinite_UNIV_listI)
  ultimately show ?thesis using ex_new_if_finite by blast
qed

section \<open>Suffixes and the selection loops\<close>

lemma png_not_svg: "endswith p ''.png'' \<Longrightarrow> \<not> endswith p ''.svg''"
  by (auto simp: endswith_def)

lemma select_suffix_keys:
  "fst ` set (select_suffix suf pmap acc) \<subseteq> fst ` set acc \<union> fst ` set pmap"
proof (induction pmap arbitrary: acc)
  case Nil
  then show ?case by simp
next
  case (Cons x pmap)
  obtain k p where x: "x = (k, p)" by (cases x)
  show ?case using Cons.IH[of "AList.update k p acc"] Cons.IH[of acc]
    by (auto simp: x dom_update)
qed

lemma select_suffix_set:
  "set (select_suffix suf pmap acc) \<subseteq> set acc \<union> {(k, q). (k, q) \<in> set pmap \<and> endswith q suf}"
proof (induction pmap arbitrary: acc)
  case Nil
  then show ?case by simp
next
  case (Cons x pmap)
  obtain k q where x: "x = (k, q)" by (cases x)
  have u: "set (AList.update k q acc) \<subseteq> set acc \<union> {(k, q)}"
    by (induction acc) auto
  show ?case using Cons.IH[of "AList.update k q acc"] Cons.IH[of acc] u
    by (auto simp: x split: if_splits)
qed



lemma select_suffix_removeAll:
  "\<not> endswith p suf \<Longrightarrow> select_suffix suf (removeAll (l, p) pmap) acc = select_suffix suf pmap acc"
  by (induction pmap arbitrary: acc) auto

lemma select_suffix_none:
  "list_all (\<lambda>(k, q). \<not> endswith q suf) pmap \<Longrightarrow> select_suffix suf pmap acc = acc"
  by (induction pmap arbitrary: acc) auto

section \<open>The drawing and connecting loops\<close>

lemma draw_pngs_keys: "List.map fst (snd (draw_pngs png a w)) = List.map fst a"
  by (induction png arbitrary: a) (auto split: option.splits simp: update_present_keys)

lemma connect_svgs_keys: "List.map fst (snd (connect_svgs ls a)) = List.map fst a"
  by (induction ls arbitrary: a) (auto split: option.splits simp: update_present_keys)

lemma draw_pngs_frame:
  "l \<notin> fst ` set png \<Longrightarrow> map_of (snd (draw_pngs png a w)) l = map_of a l"
  by (induction png arbitrary: a) (auto split: option.splits simp: update_conv')

lemma connect_svgs_frame:
  "l \<notin> set ls \<Longrightarrow> map_of (snd (connect_svgs ls a)) l = map_of a l"
  by (induction ls arbitrary: a) (auto split: option.splits simp: update_conv')

lemma draw_pngs_no_KeyError:
  "fst ` set png \<subseteq> fst ` set a \<Longrightarrow> fst (draw_pngs png a w) \<noteq> Some (KeyError l)"
proof (induction png arbitrary: a)
  case Nil
  then show ?case by simp
next
  case (Cons x png)
  obtain k p where x: "x = (k, p)" by (cases x)
  show ?case
  proof (cases "map_of (fs w) p")
    case None
    then show ?thesis by (simp add: x)
  next
    case (Some c)
    show ?thesis
    proof (cases "imread c")
      case None
      then show ?thesis by (simp add: x Some)
    next
      case img: (Some img)
      from Cons.prems x have "k \<in> fst ` set a" by auto
      then obtain ax where ax: "map_of a k = Some ax" using key_has_value by fastforce
      have "fst ` set png \<subseteq> fst ` set (AList.update k (ax @ [png_inset img]) a)"
        using Cons.prems by (auto simp: dom_update)
      from Cons.IH[OF this] show ?thesis by (simp add: x Some img ax)
    qed
  qed
qed

lemma connect_svgs_no_KeyError:
  "set ls \<subseteq> fst ` set a \<Longrightarrow> fst (connect_svgs ls a) \<noteq> Some (KeyError l)"
proof (induction ls arbitrary: a)
  case Nil
  then show ?case by simp
next
  case (Cons k ls)
  then have "k \<in> fst ` set a" by auto
  then obtain ax where ax: "map_of a k = Some ax" using key_has_value by fastforce
  have "set ls \<subseteq> fst ` set (AList.update k (ax @ [SkunkConnect k]) a)"
    using Cons.prems by (auto simp: dom_update)
  from Cons.IH[OF this] show ?case by (simp add: ax)
qed

lemma imread_png: "imread (PngImage s) = Some (Imread (PngImage s))"
  by simp



text \<open>What skunk leaves: the given keys, each with the text of its file.\<close>

lemma load_svgs_keys: "load_svgs w d = Some cs \<Longrightarrow> List.map fst cs = List.map fst d"
  by (induction d arbitrary: cs) (auto split: option.splits if_splits)


lemma load_svgs_missing:
  "(l, p) \<in> set d \<Longrightarrow> map_of (fs w) p = None \<Longrightarrow> load_svgs w d = None"
  by (induction d) (auto split: option.splits)

lemma load_svgs_invalid:
  "(l, p) \<in> set d \<Longrightarrow> map_of (fs w) p = Some c \<Longrightarrow> \<not> is_svg c \<Longrightarrow> load_svgs w d = None"
  by (induction d) (auto split: option.splits)

lemma map_panels_axs:
  "axs (snd (map_panels self pmap w)) =
     (case draw_pngs (select_suffix ''.png'' pmap []) (axs self) w of
        (Some e, a) \<Rightarrow> a
      | (None, a) \<Rightarrow> snd (connect_svgs (List.map fst (select_suffix ''.svg'' pmap [])) a))"
  by (auto simp: map_panels_def Let_def split: prod.splits option.splits)

lemma skunk_insert_keys:
  "skunk_insert w own d = Some cs \<Longrightarrow> List.map fst cs = List.map fst d"
  by (auto simp: skunk_insert_def load_svgs_keys split: if_splits)

lemma relabel_keys: "List.map fst (List.map (\<lambda>(l, c). (l, h c)) cs) = List.map fst cs"
  by (induction cs) auto

text \<open>
  When \<^verbatim>\<open>map\<close> completes, \<open>svg_panel_mapping\<close> has the keys that were selected,
  whatever skunk has put in place of the paths.
\<close>

lemma map_panels_svg_keys:
  assumes "map_panels self pmap w = (None, s)"
  shows "\<exists>d. svg_panel_mapping s = Some d \<and>
             List.map fst d = List.map fst (select_suffix ''.svg'' pmap [])"
proof -
  let ?svgm = "select_suffix ''.svg'' pmap []"
  from assms obtain texts where
    ins: "skunk_insert w (gcf w = fig_id (fig self)) ?svgm = Some texts"
    and s: "svg_panel_mapping s = Some (List.map (\<lambda>(l, c). (l, AsText c)) texts)"
    by (auto simp: map_panels_def Let_def split: prod.splits option.splits)
  have "List.map fst (List.map (\<lambda>(l, c). (l, AsText c)) texts) = List.map fst ?svgm"
    using skunk_insert_keys[OF ins] by (simp only: relabel_keys)
  with s show ?thesis by blast
qed

section \<open>Construction\<close>

lemma init_default:
  "init m fsz lay None w =
     (Inr \<lparr>mosaic = m, figsize = fsz, layout = lay,
           gridspec_kw = Some [(''hspace'', 0), (''wspace'', 0)],
           fig = Figure (Suc (created w)) m fsz lay [(''hspace'', 0), (''wspace'', 0)],
           axs = List.map (\<lambda>l. (l, [])) (mosaic_labels m),
           panel_mapping = None, png_panel_mapping = None, svg_panel_mapping = None,
           svg = Pltsvg (Figure (Suc (created w)) m fsz lay [(''hspace'', 0), (''wspace'', 0)])\<rparr>,
      w\<lparr>interactive := True, created := Suc (created w), gcf := Suc (created w),
        gcf_ids := []\<rparr>)"
  by (simp add: init_def set_up_axes_def subplot_mosaic_def Let_def)

text \<open>The figure of a new instance is pyplot's current figure.\<close>

lemma init_gcf: "init m fsz lay None w = (Inr pm, w') \<Longrightarrow> gcf w' = fig_id (fig pm)"
  by (auto simp: init_default)

lemma mosaic_labels_distinct: "distinct (mosaic_labels m)"
  by (simp add: mosaic_labels_def)

text \<open>The axes of a constructed instance are a dictionary keyed by the mosaic's labels.\<close>

lemma init_axs:
  "init m fsz lay None w = (Inr pm, w') \<Longrightarrow>
     List.map fst (axs pm) = mosaic_labels m \<and> is_dict (axs pm)"
  by (auto simp: init_default is_dict_def comp_def mosaic_labels_distinct)

text \<open>
  The constructor establishes \<^const>\<open>keys_are_panels\<close> and every method that touches the
  axes keeps it, so "a label of the mosaic" and "a key of the axes" are the same thing
  on every instance a caller can hold.
\<close>

lemma init_keys_are_panels:
  "init m fsz lay None w = (Inr pm, w') \<Longrightarrow> keys_are_panels pm"
  by (auto simp: init_default keys_are_panels_def comp_def)

lemma py_label_axes_keys: "List.map fst (py_label_axes a fontsize pos ha va) = List.map fst a"
  by (induction a) auto

lemma format_loop_keys: "List.map fst (format_loop a pb) = List.map fst a"
  by (induction a) auto

lemma label_axes_keys_are_panels:
  "keys_are_panels self \<Longrightarrow> keys_are_panels (label_axes self fontsize pos ha va)"
  by (simp add: keys_are_panels_def label_axes_def py_label_axes_keys)

lemma format_axes_keys_are_panels:
  "keys_are_panels self \<Longrightarrow> keys_are_panels (format_axes self pb)"
  by (simp add: keys_are_panels_def format_axes_def format_loop_keys)

lemma map_panels_mosaic: "mosaic (snd (map_panels self pmap w)) = mosaic self"
  by (auto simp: map_panels_def Let_def split: prod.splits option.splits)

lemma map_panels_keys_are_panels:
  "keys_are_panels self \<Longrightarrow> keys_are_panels (snd (map_panels self pmap w))"
proof -
  assume k: "keys_are_panels self"
  have "List.map fst (axs (snd (map_panels self pmap w))) = List.map fst (axs self)"
    unfolding map_panels_axs
    using draw_pngs_keys[of "select_suffix ''.png'' pmap []" "axs self" w]
      connect_svgs_keys[of "List.map fst (select_suffix ''.svg'' pmap [])"]
    by (auto split: prod.splits option.splits)
  with k show ?thesis by (simp add: keys_are_panels_def map_panels_mosaic)
qed

lemma example_pm_constructed:
  "init [[''A'', ''B'']] (10, 8) ''tight'' None (example_world\<lparr>created := 0, gcf := 0\<rparr>)
     = (Inr example_pm, example_world)"
  by (simp add: init_default example_pm_def example_world_def mosaic_labels_def)

text \<open>
  C9. Whatever \<open>gridspec_kw\<close> the caller passes, the constructor does not store it:
  \<^verbatim>\<open>_set_up_axes\<close> turns interactive mode off, fails to find the attribute, and the
  constructor ends with that attribute error. The result does not depend on the value
  passed, so the constructor can only succeed when the argument is \<^verbatim>\<open>None\<close>.
\<close>

theorem init_gridspec_kw_given:
  "init m fsz lay (Some g) w = (Inl (AttributeError ''gridspec_kw''), w\<lparr>interactive := False\<rparr>)"
  by (simp add: init_def set_up_axes_def)

section \<open>Labelling and formatting\<close>

lemma py_label_axes_map:
  "py_label_axes a fontsize pos ha va =
     List.map (\<lambda>(l, ax). (l, ax @ [Autoscale False,
        Text (fst pos) (snd pos) l ha va TransAxes fontsize False, SetTicks [] []])) a"
  by (induction a) auto

text \<open>
  C5. \<^verbatim>\<open>label_axes\<close> visits every axis of the mosaic and leaves the rest of the
  instance alone. An axis receives three calls: autoscaling off, one text, empty ticks.
  The text carries the panel's own label, sits at \<open>label_pos\<close> in axis coordinates
  (\<^const>\<open>TransAxes\<close>), and has the alignment and font size that were passed. So the
  text objects of every axis grow by exactly that one.
\<close>

theorem label_axes_one_text:
  "label_axes self fontsize pos ha va =
     self\<lparr>axs := List.map (\<lambda>(l, ax). (l, ax @ [Autoscale False,
        Text (fst pos) (snd pos) l ha va TransAxes fontsize False, SetTicks [] []])) (axs self)\<rparr>
   \<and> List.map (\<lambda>(l, ax). (l, filter is_text ax)) (axs (label_axes self fontsize pos ha va)) =
     List.map (\<lambda>(l, ax). (l, filter is_text ax @ [Text (fst pos) (snd pos) l ha va TransAxes fontsize False]))
       (axs self)"
  by (simp add: label_axes_def py_label_axes_map case_prod_beta comp_def)

lemma format_loop_True: "format_loop a True = a"
  by (induction a) auto

lemma format_loop_False: "format_loop a False = List.map (\<lambda>(l, ax). (l, ax @ [AxisOff])) a"
  by (induction a) auto

text \<open>
  C6. With \<open>panel_borders = True\<close> the method \<^verbatim>\<open>format_axes\<close> returns the instance
  as it was. With \<open>panel_borders = False\<close> every axis of the mosaic receives
  \<^verbatim>\<open>axis("off")\<close>, and nothing else changes.
\<close>

theorem format_axes_borders:
  "format_axes self True = self \<and>
   format_axes self False = self\<lparr>axs := List.map (\<lambda>(l, ax). (l, ax @ [AxisOff])) (axs self)\<rparr>"
  by (simp add: format_axes_def format_loop_True format_loop_False)

section \<open>Mapping panels\<close>




text \<open>
  C3. When every label of the panel mapping is a key of the axes, \<^verbatim>\<open>map\<close> never ends
  with a key error: every lookup \<^verbatim>\<open>self.axs[label]\<close> it performs succeeds. And for
  every instance there is a mapping with a label that is not a panel on which
  \<^verbatim>\<open>map\<close> ends with the key error of that label.
\<close>

theorem map_panels_key_lookups:
  "(fst ` set pmap \<subseteq> fst ` set (axs self) \<longrightarrow>
      (\<forall>l. fst (map_panels self pmap w) \<noteq> Some (KeyError l)))
   \<and> (\<exists>pmap' l. l \<in> fst ` set pmap' \<and> l \<notin> fst ` set (axs self)
         \<and> fst (map_panels self pmap' w) = Some (KeyError l))"
proof (intro conjI impI allI)
  fix l
  assume sub: "fst ` set pmap \<subseteq> fst ` set (axs self)"
  let ?png = "select_suffix ''.png'' pmap []"
  let ?svg = "select_suffix ''.svg'' pmap []"
  have png: "fst ` set ?png \<subseteq> fst ` set (axs self)"
    using select_suffix_keys[of "''.png''" pmap "[]"] sub by auto
  have svg: "fst ` set ?svg \<subseteq> fst ` set (axs self)"
    using select_suffix_keys[of "''.svg''" pmap "[]"] sub by auto
  obtain e a where d: "draw_pngs ?png (axs self) w = (e, a)" by (cases "draw_pngs ?png (axs self) w")
  have e: "e \<noteq> Some (KeyError l)" using draw_pngs_no_KeyError[OF png, of w l] d by simp
  have ka: "List.map fst a = List.map fst (axs self)" using draw_pngs_keys[of ?png "axs self" w] d by simp
  then have "set (List.map fst a) = set (List.map fst (axs self))" by simp
  then have "set (List.map fst ?svg) \<subseteq> fst ` set a" using svg by simp
  from connect_svgs_no_KeyError[OF this, of l]
  show "fst (map_panels self pmap w) \<noteq> Some (KeyError l)"
    using d e by (auto simp: map_panels_def Let_def split: option.splits prod.splits)
next
  obtain l :: label where l: "l \<notin> fst ` set (axs self)" using fresh_label by blast
  have "fst (map_panels self [(l, ''.svg'')] w) = Some (KeyError l)"
    using map_of_None_key[OF l]
    by (simp add: map_panels_def endswith_def)
  with l show "\<exists>pmap' l. l \<in> fst ` set pmap' \<and> l \<notin> fst ` set (axs self)
         \<and> fst (map_panels self pmap' w) = Some (KeyError l)"
    by (intro exI[of _ "[(l, ''.svg'')]"] exI[of _ l]) simp
qed

text \<open>C3 on the example: both labels are panels; the label C is not.\<close>

theorem map_panels_key_lookups_witness:
  "fst ` set [(''A'', ''a.png''), (''B'', ''b.svg'')] \<subseteq> fst ` set (axs example_pm) \<and>
   (\<forall>l. fst (map_panels example_pm [(''A'', ''a.png''), (''B'', ''b.svg'')] example_world) \<noteq> Some (KeyError l)) \<and>
   fst (map_panels example_pm [(''C'', ''c.svg'')] example_world) = Some (KeyError ''C'')"
  using map_panels_key_lookups [of "[(''A'', ''a.png''), (''B'', ''b.svg'')]" example_pm example_world]
  by (simp add: map_panels_def example_pm_def example_world_def endswith_def skunk_insert_def)

text \<open>
  C7. A mapping whose entry is a \<^verbatim>\<open>.png\<close> path that names no file makes \<^verbatim>\<open>map\<close>
  end with the file-open error of that path, as \<^verbatim>\<open>open\<close> raised it. The instance
  at that point has \<open>panel_mapping\<close> set to the new mapping (and \<open>png_panel_mapping\<close>
  with it), and nothing else changed. The free function hands the same error on to its
  caller.
\<close>

theorem map_panels_missing_png:
  assumes "endswith p ''.png''" and "map_of (fs w) p = None"
  shows "map_panels self [(l, p)] w =
           (Some (FileNotFoundError p),
            self\<lparr>panel_mapping := Some [(l, p)], png_panel_mapping := Some [(l, p)]\<rparr>)
         \<and> fst (panel_mosaic m [(l, p)] fsz fontsize pb lay pos w) = Inl (FileNotFoundError p)"
  using assms by (simp add: map_panels_def panel_mosaic_def init_default Let_def)

text \<open>C7 on the example world, which has no file \<^verbatim>\<open>missing.png\<close>.\<close>

theorem map_panels_missing_png_witness:
  "endswith ''missing.png'' ''.png'' \<and> map_of (fs example_world) ''missing.png'' = None \<and>
   map_panels example_pm [(''A'', ''missing.png'')] example_world =
     (Some (FileNotFoundError ''missing.png''),
      example_pm\<lparr>panel_mapping := Some [(''A'', ''missing.png'')],
                 png_panel_mapping := Some [(''A'', ''missing.png'')]\<rparr>) \<and>
   fst (panel_mosaic [[''A'', ''B'']] [(''A'', ''missing.png'')] (10, 8) 30 False ''tight'' (0, 1)
          example_world) = Inl (FileNotFoundError ''missing.png'')"
  using map_panels_missing_png [of "''missing.png''" example_world example_pm "''A''"
      "[[''A'', ''B'']]" "(10, 8)" 30 False "''tight''" "(0, 1)"]
  by (simp add: example_world_def endswith_def)

text \<open>
  What \<^verbatim>\<open>map\<close> raises when a library call fails: a \<^verbatim>\<open>.png\<close> file that does not
  decode, a \<^verbatim>\<open>.svg\<close> file that is missing or holds no SVG text, and a current
  figure that is not the instance's and does not carry the placeholder.
\<close>

lemma svg_not_png: "endswith p ''.svg'' \<Longrightarrow> \<not> endswith p ''.png''"
  using png_not_svg by blast

lemma map_panels_undecodable_png:
  "endswith p ''.png'' \<Longrightarrow> map_of (fs w) p = Some c \<Longrightarrow> imread c = None \<Longrightarrow>
   map_panels self [(l, p)] w =
     (Some (LibraryError ''plt.imread''),
      self\<lparr>panel_mapping := Some [(l, p)], png_panel_mapping := Some [(l, p)]\<rparr>)"
  by (simp add: map_panels_def)

lemma map_panels_missing_svg:
  "endswith p ''.svg'' \<Longrightarrow> map_of (axs self) l = Some ax \<Longrightarrow> map_of (fs w) p = None \<Longrightarrow>
   fst (map_panels self [(l, p)] w) = Some (LibraryError ''skunk.insert'')"
  by (simp add: map_panels_def svg_not_png skunk_insert_def Let_def)

lemma map_panels_invalid_svg:
  "endswith p ''.svg'' \<Longrightarrow> map_of (axs self) l = Some ax \<Longrightarrow>
   map_of (fs w) p = Some c \<Longrightarrow> \<not> is_svg c \<Longrightarrow>
   fst (map_panels self [(l, p)] w) = Some (LibraryError ''skunk.insert'')"
  by (simp add: map_panels_def svg_not_png skunk_insert_def Let_def)

lemma map_panels_foreign_figure:
  "endswith p ''.svg'' \<Longrightarrow> map_of (axs self) l = Some ax \<Longrightarrow>
   gcf w \<noteq> fig_id (fig self) \<Longrightarrow> l \<notin> set (gcf_ids w) \<Longrightarrow>
   fst (map_panels self [(l, p)] w) = Some (LibraryError ''skunk.insert'')"
  by (simp add: map_panels_def svg_not_png skunk_insert_def Let_def)

text \<open>
  C8. Let an entry of the panel mapping have a path that ends with neither
  \<^verbatim>\<open>.png\<close> nor \<^verbatim>\<open>.svg\<close>. Then \<^verbatim>\<open>map\<close> records the whole mapping, the entry
  included, in \<open>panel_mapping\<close>; the entry is in neither of the two selected
  dictionaries, and when the mapping is a dictionary its label is not a key of either;
  \<open>png_panel_mapping\<close> is the first of them, and when \<^verbatim>\<open>map\<close> completes
  \<open>svg_panel_mapping\<close> has the keys of the second; the axis of the entry's panel is
  as before when the mapping is a dictionary; and \<^verbatim>\<open>map\<close> does what it does without
  the entry, the same outcome and the same instance up to \<open>panel_mapping\<close>. In
  particular a mapping of such entries only raises nothing and embeds nothing.
\<close>

theorem map_panels_ignores_other_suffix:
  assumes mem: "(l, p) \<in> set pmap"
    and npng: "\<not> endswith p ''.png''" and nsvg: "\<not> endswith p ''.svg''"
  shows "(case map_panels self pmap w of (e, s) \<Rightarrow>
            panel_mapping s = Some pmap \<and>
            png_panel_mapping s = Some (select_suffix ''.png'' pmap []) \<and>
            (e = None \<longrightarrow>
               (\<exists>d. svg_panel_mapping s = Some d \<and>
                    List.map fst d = List.map fst (select_suffix ''.svg'' pmap []))) \<and>
            (is_dict pmap \<longrightarrow> map_of (axs s) l = map_of (axs self) l))
         \<and> (l, p) \<notin> set (select_suffix ''.png'' pmap [])
         \<and> (l, p) \<notin> set (select_suffix ''.svg'' pmap [])
         \<and> (is_dict pmap \<longrightarrow>
               l \<notin> fst ` set (select_suffix ''.png'' pmap []) \<and>
               l \<notin> fst ` set (select_suffix ''.svg'' pmap []))
         \<and> map_panels self pmap w =
             (case map_panels self (removeAll (l, p) pmap) w of
                (e, s) \<Rightarrow> (e, s\<lparr>panel_mapping := Some pmap\<rparr>))
         \<and> (list_all (\<lambda>(k, q). \<not> endswith q ''.png'' \<and> \<not> endswith q ''.svg'') pmap \<longrightarrow>
              map_panels self pmap w =
                (None, self\<lparr>panel_mapping := Some pmap, png_panel_mapping := Some [],
                             svg_panel_mapping := Some [], svg := SkunkInsert (gcf w) []\<rparr>))"
proof (intro conjI)
  have nokey: "l \<notin> fst ` set (select_suffix ''.png'' pmap []) \<and>
               l \<notin> fst ` set (select_suffix ''.svg'' pmap [])" if d: "is_dict pmap"
  proof -
    have "\<And>q. (l, q) \<in> set pmap \<Longrightarrow> q = p"
      using d mem by (auto simp: is_dict_def dest: eq_key_imp_eq_value)
    then show ?thesis
      using select_suffix_set[of "''.png''" pmap "[]"] select_suffix_set[of "''.svg''" pmap "[]"]
        npng nsvg by fastforce
  qed
  then show "is_dict pmap \<longrightarrow>
               l \<notin> fst ` set (select_suffix ''.png'' pmap []) \<and>
               l \<notin> fst ` set (select_suffix ''.svg'' pmap [])" by blast
  have frame: "map_of (axs (snd (map_panels self pmap w))) l = map_of (axs self) l" if d: "is_dict pmap"
  proof -
    from nokey[OF d] have a: "l \<notin> fst ` set (select_suffix ''.png'' pmap [])"
      and b: "l \<notin> fst ` set (select_suffix ''.svg'' pmap [])" by auto
    from b have b': "l \<notin> set (List.map fst (select_suffix ''.svg'' pmap []))" by simp
    show ?thesis
      unfolding map_panels_axs
      using draw_pngs_frame[OF a, of "axs self" w] connect_svgs_frame[OF b']
      by (auto split: prod.splits option.splits)
  qed
  obtain e s where es: "map_panels self pmap w = (e, s)" by (cases "map_panels self pmap w")
  have pm: "panel_mapping s = Some pmap"
    and png: "png_panel_mapping s = Some (select_suffix ''.png'' pmap [])"
    using es by (auto simp: map_panels_def Let_def split: prod.splits option.splits)
  have keys: "e = None \<longrightarrow>
               (\<exists>d. svg_panel_mapping s = Some d \<and>
                    List.map fst d = List.map fst (select_suffix ''.svg'' pmap []))"
    using es map_panels_svg_keys by blast
  have fr: "is_dict pmap \<longrightarrow> map_of (axs s) l = map_of (axs self) l"
    using frame es by simp
  show "case map_panels self pmap w of (e, s) \<Rightarrow>
            panel_mapping s = Some pmap \<and>
            png_panel_mapping s = Some (select_suffix ''.png'' pmap []) \<and>
            (e = None \<longrightarrow>
               (\<exists>d. svg_panel_mapping s = Some d \<and>
                    List.map fst d = List.map fst (select_suffix ''.svg'' pmap []))) \<and>
            (is_dict pmap \<longrightarrow> map_of (axs s) l = map_of (axs self) l)"
    unfolding es using pm png keys fr by simp
  show "(l, p) \<notin> set (select_suffix ''.png'' pmap [])"
    using select_suffix_set[of "''.png''" pmap "[]"] npng by auto
  show "(l, p) \<notin> set (select_suffix ''.svg'' pmap [])"
    using select_suffix_set[of "''.svg''" pmap "[]"] nsvg by auto
  show "map_panels self pmap w =
             (case map_panels self (removeAll (l, p) pmap) w of
                (e, s) \<Rightarrow> (e, s\<lparr>panel_mapping := Some pmap\<rparr>))"
    by (auto simp: map_panels_def Let_def select_suffix_removeAll[OF npng] select_suffix_removeAll[OF nsvg]
        split: prod.splits option.splits)
  show "list_all (\<lambda>(k, q). \<not> endswith q ''.png'' \<and> \<not> endswith q ''.svg'') pmap \<longrightarrow>
              map_panels self pmap w =
                (None, self\<lparr>panel_mapping := Some pmap, png_panel_mapping := Some [],
                             svg_panel_mapping := Some [], svg := SkunkInsert (gcf w) []\<rparr>)"
  proof
    assume all: "list_all (\<lambda>(k, q). \<not> endswith q ''.png'' \<and> \<not> endswith q ''.svg'') pmap"
    then have "list_all (\<lambda>(k, q). \<not> endswith q ''.png'') pmap"
      and "list_all (\<lambda>(k, q). \<not> endswith q ''.svg'') pmap"
      by (auto simp: list_all_iff)
    then have "select_suffix ''.png'' pmap [] = []" and "select_suffix ''.svg'' pmap [] = []"
      by (simp_all add: select_suffix_none)
    then show "map_panels self pmap w =
                (None, self\<lparr>panel_mapping := Some pmap, png_panel_mapping := Some [],
                             svg_panel_mapping := Some [], svg := SkunkInsert (gcf w) []\<rparr>)"
      by (simp add: map_panels_def skunk_insert_def)
  qed
qed

text \<open>C8 on the example: a \<^verbatim>\<open>.jpg\<close> for panel A and a \<^verbatim>\<open>.pdf\<close> for panel B.\<close>

theorem map_panels_ignores_other_suffix_witness:
  "(''A'', ''a.jpg'') \<in> set [(''A'', ''a.jpg''), (''B'', ''b.pdf'')] \<and>
   \<not> endswith ''a.jpg'' ''.png'' \<and> \<not> endswith ''a.jpg'' ''.svg'' \<and>
   is_dict [(''A'', ''a.jpg''), (''B'', ''b.pdf'')] \<and>
   list_all (\<lambda>(k, q). \<not> endswith q ''.png'' \<and> \<not> endswith q ''.svg'') [(''A'', ''a.jpg''), (''B'', ''b.pdf'')] \<and>
   map_panels example_pm [(''A'', ''a.jpg''), (''B'', ''b.pdf'')] example_world =
     (None, example_pm\<lparr>panel_mapping := Some [(''A'', ''a.jpg''), (''B'', ''b.pdf'')],
                        png_panel_mapping := Some [], svg_panel_mapping := Some [],
                        svg := SkunkInsert 1 []\<rparr>) \<and>
   map_of (axs (snd (map_panels example_pm [(''A'', ''a.jpg''), (''B'', ''b.pdf'')] example_world))) ''A''
     = map_of (axs example_pm) ''A''"
  using map_panels_ignores_other_suffix
    [of "''A''" "''a.jpg''" "[(''A'', ''a.jpg''), (''B'', ''b.pdf'')]" example_pm example_world]
  by (simp add: is_dict_def endswith_def map_panels_def example_pm_def example_world_def
      skunk_insert_def)

section \<open>Writing\<close>

text \<open>
  For a string path \<^verbatim>\<open>write\<close> writes the SVG file exactly when \<^verbatim>\<open>"svg"\<close> is among
  the formats and the PDF file exactly when \<^verbatim>\<open>"pdf"\<close> is, the SVG file first, and
  nothing else.
\<close>

lemma write_figure_str:
  "write_figure self (PyStr s) formats w =
     (None, w\<lparr>fs := (if ''pdf'' \<in> set formats then [(s @ ''.pdf'', PdfOf (svg self))] else [])
                    @ (if ''svg'' \<in> set formats then [(s @ ''.svg'', SvgText (svg self))] else [])
                    @ fs w\<rparr>)"
  by (simp add: write_figure_def write_svg_def write_pdf_def)

text \<open>
  C4. For a \<^verbatim>\<open>Path\<close> and both formats, \<^verbatim>\<open>write\<close> ends in the type error of
  \<^verbatim>\<open>write_svg\<close> and the file system is as before: neither the SVG file nor the PDF
  file is written.
\<close>

theorem write_figure_path_fails:
  "write_figure self (PyPath ''fig'') [''svg'', ''pdf''] w = (Some TypeError, w)"
  by (simp add: write_figure_def write_svg_def)

text \<open>
  C10. For every \<^verbatim>\<open>Path\<close>, \<^verbatim>\<open>write_svg\<close> fails with a type error and writes
  nothing, while \<^verbatim>\<open>write_pdf\<close> completes and writes the converted document at the
  path's string form followed by \<^verbatim>\<open>.pdf\<close>.
\<close>

theorem write_path_asymmetry:
  "write_svg self (PyPath p) w = (Some TypeError, w) \<and>
   write_pdf self (PyPath p) w = (None, w\<lparr>fs := (p @ ''.pdf'', PdfOf (svg self)) # fs w\<rparr>)"
  by (simp add: write_svg_def write_pdf_def)

section \<open>The free function\<close>

text \<open>
  C1. The value \<^verbatim>\<open>panel_mosaic\<close> returns is never a string: when it returns, it
  returns the instance it built. On the two-panel mosaic with an empty mapping it
  returns the instance whose \<open>svg\<close> attribute holds the document, the rendering of the
  instance's own figure.
\<close>

theorem panel_mosaic_returns_instance:
  "fst (panel_mosaic m pmap fsz fontsize pb lay pos w) \<noteq> Inr (Str s) \<and>
   (\<exists>pm. fst (panel_mosaic [[''A'', ''B'']] [] (10, 8) 30 False ''tight'' (0, 1) example_world)
            = Inr (Instance pm) \<and> svg pm = SkunkInsert (fig_id (fig pm)) [])"
proof
  show "fst (panel_mosaic m pmap fsz fontsize pb lay pos w) \<noteq> Inr (Str s)"
    by (auto simp: panel_mosaic_def Let_def split: prod.splits sum.splits option.splits)
  show "\<exists>pm. fst (panel_mosaic [[''A'', ''B'']] [] (10, 8) 30 False ''tight'' (0, 1) example_world)
            = Inr (Instance pm) \<and> svg pm = SkunkInsert (fig_id (fig pm)) []"
    by (simp add: panel_mosaic_def init_default map_panels_def Let_def skunk_insert_def
        label_axes_def format_axes_def)
qed

end
